theory Spec2Isabelle
  imports Complex_Main
begin

section \<open>Arrays, errors and the random generator\<close>

text \<open>
  The program computes on one-dimensional numpy arrays. A float64 array is a list of
  samples; the samples are idealised as real numbers, so rounding, infinities and NaN
  are outside this development. A comparison such as \<^verbatim>\<open>signal > 0.1\<close> yields an array
  of booleans, which numpy keeps apart from an array of floats.
\<close>

datatype ndarray = FloatArr "real list" | BoolArr "bool list"

datatype error = ValueError | IndexError

fun arr_len :: "ndarray \<Rightarrow> nat" where
  "arr_len (FloatArr xs) = length xs"
| "arr_len (BoolArr bs) = length bs"

text \<open>
  An elementwise operation on two arrays follows numpy's broadcasting: arrays of equal
  length are combined sample by sample, an array of length one is stretched over the
  other, and any other pair of lengths raises ValueError.
\<close>

definition broadcast2 :: "('a \<Rightarrow> 'b \<Rightarrow> 'c) \<Rightarrow> 'a list \<Rightarrow> 'b list \<Rightarrow> error + 'c list" where
  "broadcast2 f xs ys =
     (if length xs = length ys then Inr (map2 f xs ys)
      else if length xs = 1 then Inr (map (f (hd xs)) ys)
      else if length ys = 1 then Inr (map (\<lambda>x. f x (hd ys)) xs)
      else Inl ValueError)"

definition map_result :: "('a \<Rightarrow> 'b) \<Rightarrow> error + 'a \<Rightarrow> error + 'b" where
  "map_result f r = (case r of Inl e \<Rightarrow> Inl e | Inr x \<Rightarrow> Inr (f x))"

definition bind_result :: "error + 'a \<Rightarrow> ('a \<Rightarrow> error + 'b) \<Rightarrow> error + 'b" where
  "bind_result r f = (case r of Inl e \<Rightarrow> Inl e | Inr x \<Rightarrow> f x)"

text \<open>
  \<^verbatim>\<open>np.random.random()\<close> reads numpy's global generator. The generator is the
  sequence of the draws it has still to hand out; a draw takes the first and leaves
  the rest.
\<close>

type_synonym rng = "nat \<Rightarrow> real"

definition np_random_random :: "rng \<Rightarrow> real \<times> rng" where
  "np_random_random g = (g 0, (\<lambda>i. g (Suc i)))"

definition const_rng :: "real \<Rightarrow> rng" where
  "const_rng r = (\<lambda>_. r)"

text \<open>
  The comprehension \<^verbatim>\<open>[1 if np.random.random() > 0.5 else 0 for _ in range(len(t))]\<close>:
  one draw for each sample, in order.
\<close>

fun binary_draws :: "nat \<Rightarrow> rng \<Rightarrow> int list \<times> rng" where
  "binary_draws 0 g = ([], g)"
| "binary_draws (Suc n) g =
     (let (r, g1) = np_random_random g;
          b = (if r > 0.5 then 1 else 0);
          (bs, g2) = binary_draws n g1
      in (b # bs, g2))"

section \<open>Library functions of numpy and scipy\<close>

text \<open>
  These functions belong to numpy and scipy, not to the program. They are written out
  after the libraries' own definitions, over the reals.
\<close>

definition np_mod :: "real \<Rightarrow> real \<Rightarrow> real" where
  "np_mod x y = x - y * of_int \<lfloor>x / y\<rfloor>"

text \<open>
  \<^verbatim>\<open>scipy.signal.square(t, duty)\<close>: 1 on the first \<open>duty\<close> part of each period of
  \<open>2 * pi\<close>, -1 on the rest. The default of \<open>duty\<close> is 0.5. scipy fills the samples
  with NaN when \<open>duty\<close> is outside [0, 1]; the program only passes 0.5.
\<close>

definition square :: "real list \<Rightarrow> real \<Rightarrow> real list" where
  "square t duty =
     map (\<lambda>x. if np_mod x (2 * pi) < duty * 2 * pi then 1 else - 1) t"

text \<open>
  \<^verbatim>\<open>scipy.signal.sawtooth(t, width)\<close>: rises from -1 to 1 on the first \<open>width\<close>
  part of each period and falls back on the rest.
\<close>

definition sawtooth :: "real list \<Rightarrow> real \<Rightarrow> real list" where
  "sawtooth t width =
     map (\<lambda>x. let tmod = np_mod x (2 * pi) in
               if tmod < width * 2 * pi then tmod / (pi * width) - 1
               else (pi * (width + 1) - tmod) / (pi * (1 - width))) t"

fun cumsum_from :: "real \<Rightarrow> real list \<Rightarrow> real list" where
  "cumsum_from acc [] = []"
| "cumsum_from acc (x # xs) = (acc + x) # cumsum_from (acc + x) xs"

definition cumsum :: "real list \<Rightarrow> real list" where
  "cumsum xs = cumsum_from 0 xs"

definition arctan2 :: "real \<Rightarrow> real \<Rightarrow> real" where
  "arctan2 y x =
     (if 0 < x then arctan (y / x)
      else if x < 0 \<and> 0 \<le> y then arctan (y / x) + pi
      else if x < 0 \<and> y < 0 then arctan (y / x) - pi
      else if 0 < y then pi / 2
      else if y < 0 then - (pi / 2)
      else 0)"

definition np_angle :: "complex \<Rightarrow> real" where
  "np_angle z = arctan2 (Im z) (Re z)"

definition np_diff :: "real list \<Rightarrow> real list" where
  "np_diff p = map2 (\<lambda>b a. b - a) (tl p) p"

text \<open>
  \<^verbatim>\<open>np.unwrap(p)\<close> with the default period \<open>2 * pi\<close>: a jump of at least \<open>pi\<close>
  between neighbours is replaced by its complement, and the corrections accumulate.
\<close>

definition np_unwrap :: "real list \<Rightarrow> real list" where
  "np_unwrap p =
     (let ph_correct =
            map (\<lambda>dd. let m = np_mod (dd + pi) (2 * pi) - pi;
                           ddmod = (if m = - pi \<and> 0 < dd then pi else m)
                       in if \<bar>dd\<bar> < pi then 0 else ddmod - dd) (np_diff p)
      in case p of [] \<Rightarrow> []
         | x # xs \<Rightarrow> x # map2 (\<lambda>a c. a + c) xs (cumsum ph_correct))"

text \<open>
  \<^verbatim>\<open>np.gradient(f)\<close> with unit spacing: one-sided differences at the two ends,
  central differences inside. numpy raises ValueError for fewer than two samples.
\<close>

definition np_gradient :: "real list \<Rightarrow> error + real list" where
  "np_gradient f =
     (let n = length f in
      if n < 2 then Inl ValueError
      else Inr (map (\<lambda>i. if i = 0 then f ! 1 - f ! 0
                          else if i = n - 1 then f ! (n - 1) - f ! (n - 2)
                          else (f ! (i + 1) - f ! (i - 1)) / 2) [0..<n]))"

section \<open>Signal generators\<close>

definition generate_signal ::
  "string \<Rightarrow> real list \<Rightarrow> real \<Rightarrow> real \<Rightarrow> real \<Rightarrow> rng \<Rightarrow> (error + real list) \<times> rng" where
  "generate_signal signal_type t amplitude frequency offset g =
     (if signal_type = ''Sine Wave'' then
        (Inr (map (\<lambda>x. amplitude * sin (2 * pi * frequency * x) + offset) t), g)
      else if signal_type = ''Square Wave'' then
        (Inr (map (\<lambda>y. amplitude * y + offset)
                (square (map (\<lambda>x. 2 * pi * frequency * x) t) (1 / 2))), g)
      else if signal_type = ''Triangle Wave'' then
        (Inr (map (\<lambda>y. amplitude * y + offset)
                (sawtooth (map (\<lambda>x. 2 * pi * frequency * x) t) (1 / 2))), g)
      else if signal_type = ''Clock Pulse'' then
        (Inr (map (\<lambda>y. amplitude * y + offset)
                (square (map (\<lambda>x. 2 * pi * frequency * x) t) (1 / 2))), g)
      else if signal_type = ''Binary Data'' then
        (let (bits, g1) = binary_draws (length t) g
         in (Inr (map (\<lambda>b. amplitude * of_int b + offset) bits), g1))
      else if signal_type = ''Carrier Wave'' then
        (Inr (map (\<lambda>x. amplitude * sin (2 * pi * frequency * x) + offset) t), g)
      else (Inr (replicate (length t) 0), g))"

section \<open>Modulation\<close>

definition modulate_signal ::
  "real \<Rightarrow> real list \<Rightarrow> real list \<Rightarrow> string \<Rightarrow> real \<Rightarrow> error + real list" where
  "modulate_signal carrier_freq message_signal t mod_type mod_index =
     (let carrier = map (\<lambda>x. sin (2 * pi * carrier_freq * x)) t in
      if mod_type = ''AM'' then
        broadcast2 (\<lambda>m c. m * c) (map (\<lambda>m. 1 + mod_index * m) message_signal) carrier
      else if mod_type = ''FM'' then
        (case t of
           t0 # t1 # _ \<Rightarrow>
             (let integrated_signal = map (\<lambda>s. s * (t1 - t0)) (cumsum message_signal)
              in map_result (map sin)
                   (broadcast2 (\<lambda>p i. p + i) (map (\<lambda>x. 2 * pi * carrier_freq * x) t)
                      (map (\<lambda>i. mod_index * i) integrated_signal)))
         | _ \<Rightarrow> Inl IndexError)
      else if mod_type = ''PM'' then
        map_result (map sin)
          (broadcast2 (\<lambda>p m. p + m) (map (\<lambda>x. 2 * pi * carrier_freq * x) t)
             (map (\<lambda>m. mod_index * m) message_signal))
      else if mod_type = ''ASK'' then
        broadcast2 (\<lambda>c m. c * m) carrier
          (map (\<lambda>m. (if 0 < m then 1 else 0) * 0.5 + 0.5) message_signal)
      else if mod_type = ''FSK'' then
        broadcast2 (\<lambda>c (a, b). if c then a else b) (map (\<lambda>m. 0 < m) message_signal)
          (zip (map (\<lambda>x. sin (2 * pi * carrier_freq * 1.5 * x)) t)
               (map (\<lambda>x. sin (2 * pi * carrier_freq * x)) t))
      else if mod_type = ''PSK'' then
        broadcast2 (\<lambda>c s. c * s) carrier (map sgn message_signal)
      else Inr (replicate (length t) 0))"

section \<open>Demodulation\<close>

definition demodulate_signal :: "real list \<Rightarrow> string \<Rightarrow> error + ndarray" where
  "demodulate_signal signal mod_type =
     (if mod_type = ''AM'' then Inr (FloatArr (map abs signal))
      else if mod_type = ''FM'' \<or> mod_type = ''PM'' then
        map_result FloatArr
          (np_gradient (np_unwrap
             (map (\<lambda>x. np_angle (complex_of_real x + \<i> * complex_of_real x)) signal)))
      else if mod_type = ''ASK'' then Inr (BoolArr (map (\<lambda>x. 0.1 < x) signal))
      else if mod_type = ''PSK'' \<or> mod_type = ''FSK'' then
        Inr (FloatArr (map (\<lambda>x. if 0 < x then 1 else 0) signal))
      else Inr (FloatArr (replicate (length signal) 0)))"

section \<open>Channel evaluation in main\<close>

text \<open>
  A channel is the tuple returned by \<^verbatim>\<open>channel_controls\<close>: enabled, signal_type,
  amplitude, frequency, offset, mod_index.
\<close>

record channel =
  ch_enabled :: bool
  ch_signal_type :: string
  ch_amplitude :: real
  ch_frequency :: real
  ch_offset :: real
  ch_mod_index :: real

text \<open>Python's \<^verbatim>\<open>sub in s\<close> on strings.\<close>

fun str_contains :: "string \<Rightarrow> string \<Rightarrow> bool" where
  "str_contains sub [] = (sub = [])"
| "str_contains sub (c # cs) = (take (length sub) (c # cs) = sub \<or> str_contains sub cs)"

text \<open>
  \<^verbatim>\<open>s.split()[0]\<close>: the first run of characters that are not whitespace; IndexError
  when there is none. A character is a code point below 256; the whitespace among them
  is what Python's \<^verbatim>\<open>str.isspace\<close> accepts there: tab to carriage return, the four
  separators 28 to 31, the space, NEL (133) and the no-break space (160).
\<close>

definition py_isspace :: "char \<Rightarrow> bool" where
  "py_isspace c = (of_char c \<in> {9, 10, 11, 12, 13, 28, 29, 30, 31, 32, 133, 160 :: nat})"

definition first_word :: "string \<Rightarrow> error + string" where
  "first_word s =
     (let r = dropWhile py_isspace s in
      if r = [] then Inl IndexError else Inr (takeWhile (\<lambda>c. \<not> py_isspace c) r))"

text \<open>\<^verbatim>\<open>amplitude * signal + offset\<close>: a boolean array counts as 0 and 1.\<close>

fun affine :: "real \<Rightarrow> real \<Rightarrow> ndarray \<Rightarrow> real list" where
  "affine a off (FloatArr xs) = map (\<lambda>x. a * x + off) xs"
| "affine a off (BoolArr bs) = map (\<lambda>b. a * (if b then 1 else 0) + off) bs"

text \<open>The body of the loop over the channels in \<^verbatim>\<open>main\<close>: the channel's signal.\<close>

definition channel_signal ::
  "real \<Rightarrow> real list \<Rightarrow> real list \<Rightarrow> channel \<Rightarrow> rng \<Rightarrow> (error + real list) \<times> rng" where
  "channel_signal carrier_freq t message_signal ch g =
     (let signal_type = ch_signal_type ch; amplitude = ch_amplitude ch;
          frequency = ch_frequency ch; offset = ch_offset ch; mod_index = ch_mod_index ch
      in
      if str_contains ''Message Signal'' signal_type then
        generate_signal ''Sine Wave'' t amplitude frequency offset g
      else if str_contains ''Clock Pulse'' signal_type then
        generate_signal ''Clock Pulse'' t amplitude frequency offset g
      else if str_contains ''Carrier Wave'' signal_type then
        generate_signal ''Carrier Wave'' t amplitude carrier_freq offset g
      else if str_contains ''Modulated'' signal_type then
        (bind_result (first_word signal_type) (\<lambda>mod_type.
           map_result (\<lambda>s. affine amplitude offset (FloatArr s))
             (modulate_signal carrier_freq message_signal t mod_type mod_index)), g)
      else if str_contains ''Demodulated'' signal_type then
        (bind_result (first_word signal_type) (\<lambda>mod_type.
           bind_result (modulate_signal carrier_freq message_signal t mod_type mod_index)
             (\<lambda>modulated.
                map_result (affine amplitude offset)
                  (demodulate_signal modulated mod_type))), g)
      else (Inr (replicate (length t) 0), g))"

section \<open>Basic facts\<close>

lemma broadcast2_same:
  "length xs = length ys \<Longrightarrow> broadcast2 f xs ys = Inr (map2 f xs ys)"
  by (simp add: broadcast2_def)

lemma length_cumsum_from: "length (cumsum_from a xs) = length xs"
  by (induction xs arbitrary: a) simp_all

lemma length_cumsum: "length (cumsum xs) = length xs"
  by (simp add: cumsum_def length_cumsum_from)

lemma length_square: "length (square t d) = length t"
  by (simp add: square_def)

lemma length_sawtooth: "length (sawtooth t w) = length t"
  by (simp add: sawtooth_def)

lemma binary_draws_length: "length (fst (binary_draws n g)) = n"
proof (induction n arbitrary: g)
  case 0
  show ?case by simp
next
  case (Suc n)
  obtain r g1 where d: "np_random_random g = (r, g1)"
    by (cases "np_random_random g")
  obtain bs g2 where b: "binary_draws n g1 = (bs, g2)"
    by (cases "binary_draws n g1")
  from Suc [of g1] b have "length bs = n" by simp
  with d b show ?case by simp
qed

lemma length_np_unwrap: "length (np_unwrap p) = length p"
  by (cases p) (simp_all add: np_unwrap_def np_diff_def length_cumsum Let_def)

lemma np_gradient_ok:
  "2 \<le> length f \<Longrightarrow> \<exists>w. np_gradient f = Inr w \<and> length w = length f"
  by (simp add: np_gradient_def Let_def)

lemma binary_draws_length_pair: "binary_draws n g = (bs, g1) \<Longrightarrow> length bs = n"
  using binary_draws_length [of n g] by simp

lemma map2_nth_eq:
  "length xs = length ys \<Longrightarrow> (\<And>i. i < length ys \<Longrightarrow> f (xs ! i) (ys ! i) = h (ys ! i)) \<Longrightarrow>
   map2 f xs ys = map h ys"
  by (simp add: list_eq_iff_nth_eq)

subsection \<open>The branches of the dispatch on the scheme\<close>

lemma modulate_AM:
  "modulate_signal fc msg t ''AM'' k =
     broadcast2 (\<lambda>m c. m * c) (map (\<lambda>m. 1 + k * m) msg) (map (\<lambda>x. sin (2 * pi * fc * x)) t)"
  by (simp add: modulate_signal_def)

lemma modulate_FM:
  "modulate_signal fc msg (t0 # t1 # ts) ''FM'' k =
     map_result (map sin)
       (broadcast2 (\<lambda>p i. p + i) (map (\<lambda>x. 2 * pi * fc * x) (t0 # t1 # ts))
          (map (\<lambda>i. k * i) (map (\<lambda>s. s * (t1 - t0)) (cumsum msg))))"
  by (simp add: modulate_signal_def)

lemma modulate_FM_short:
  "length t < 2 \<Longrightarrow> modulate_signal fc msg t ''FM'' k = Inl IndexError"
  by (cases t rule: list.exhaust [case_product list.exhaust])
     (auto simp: modulate_signal_def split: list.splits)

lemma modulate_PM:
  "modulate_signal fc msg t ''PM'' k =
     map_result (map sin)
       (broadcast2 (\<lambda>p m. p + m) (map (\<lambda>x. 2 * pi * fc * x) t) (map (\<lambda>m. k * m) msg))"
  by (simp add: modulate_signal_def)

lemma modulate_ASK:
  "modulate_signal fc msg t ''ASK'' k =
     broadcast2 (\<lambda>c m. c * m) (map (\<lambda>x. sin (2 * pi * fc * x)) t)
       (map (\<lambda>m. (if 0 < m then 1 else 0) * 0.5 + 0.5) msg)"
  by (simp add: modulate_signal_def)

lemma modulate_FSK:
  "modulate_signal fc msg t ''FSK'' k =
     broadcast2 (\<lambda>c (a, b). if c then a else b) (map (\<lambda>m. 0 < m) msg)
       (zip (map (\<lambda>x. sin (2 * pi * fc * 1.5 * x)) t) (map (\<lambda>x. sin (2 * pi * fc * x)) t))"
  by (simp add: modulate_signal_def)

lemma modulate_PSK:
  "modulate_signal fc msg t ''PSK'' k =
     broadcast2 (\<lambda>c s. c * s) (map (\<lambda>x. sin (2 * pi * fc * x)) t) (map sgn msg)"
  by (simp add: modulate_signal_def)

lemma demodulate_PSK:
  "demodulate_signal s ''PSK'' = Inr (FloatArr (map (\<lambda>x. if 0 < x then 1 else 0) s))"
  by (simp add: demodulate_signal_def)

lemma sin_3pi_half: "sin (3 * pi / 2) = - 1"
  using sin_3over2_pi by (simp add: mult.commute)

subsection \<open>Broadcasting and totality\<close>

lemma broadcast2_elems:
  assumes r: "broadcast2 f xs ys = Inr w" and z: "z \<in> set w"
  shows "\<exists>x\<in>set xs. \<exists>y\<in>set ys. z = f x y"
proof -
  consider (same) "length xs = length ys"
    | (left) "length xs \<noteq> length ys" "length xs = 1"
    | (right) "length xs \<noteq> length ys" "length xs \<noteq> 1" "length ys = 1"
    | (bad) "length xs \<noteq> length ys" "length xs \<noteq> 1" "length ys \<noteq> 1"
    by blast
  then show ?thesis
  proof cases
    case same
    with r have "w = map2 f xs ys" by (simp add: broadcast2_def)
    with z obtain x y where "(x, y) \<in> set (zip xs ys)" "z = f x y" by auto
    then show ?thesis by (blast dest: set_zip_leftD set_zip_rightD)
  next
    case left
    with r have w: "w = map (f (hd xs)) ys" by (simp add: broadcast2_def)
    from left have "hd xs \<in> set xs" by (cases xs) simp_all
    with w z show ?thesis by auto
  next
    case right
    with r have w: "w = map (\<lambda>x. f x (hd ys)) xs" by (simp add: broadcast2_def)
    from right have "hd ys \<in> set ys" by (cases ys) simp_all
    with w z show ?thesis by auto
  next
    case bad
    with r show ?thesis by (simp add: broadcast2_def)
  qed
qed

lemma map_result_sin_bound:
  "map_result (map sin) r = Inr w \<Longrightarrow> x \<in> set w \<Longrightarrow> - 1 \<le> x \<and> x \<le> (1::real)"
  by (auto simp: map_result_def split: sum.splits)

lemma two_or_more: "2 \<le> length t \<Longrightarrow> \<exists>t0 t1 ts. t = t0 # t1 # ts"
proof (cases t)
  case Nil
  assume "2 \<le> length t"
  with Nil show ?thesis by simp
next
  case (Cons a l)
  assume "2 \<le> length t"
  with Cons show ?thesis by (cases l) simp_all
qed

lemma fm_bound:
  assumes "modulate_signal fc msg t ''FM'' k = Inr w" "x \<in> set w"
  shows "- 1 \<le> x \<and> x \<le> 1"
proof (cases "length t < 2")
  case True
  with assms show ?thesis by (simp add: modulate_FM_short)
next
  case False
  then obtain t0 t1 ts where "t = t0 # t1 # ts" using two_or_more [of t] by auto
  with assms show ?thesis
    by (auto simp only: modulate_FM dest: map_result_sin_bound)
qed

lemma pm_bound:
  "modulate_signal fc msg t ''PM'' k = Inr w \<Longrightarrow> x \<in> set w \<Longrightarrow> - 1 \<le> x \<and> x \<le> 1"
  by (auto simp only: modulate_PM dest: map_result_sin_bound)

lemma fsk_bound:
  assumes "modulate_signal fc msg t ''FSK'' k = Inr w" "x \<in> set w"
  shows "- 1 \<le> x \<and> x \<le> 1"
proof -
  from assms obtain c p where
    p: "p \<in> set (zip (map (\<lambda>x. sin (2 * pi * fc * 1.5 * x)) t)
                    (map (\<lambda>x. sin (2 * pi * fc * x)) t))"
    and x: "x = (case p of (a, b) \<Rightarrow> if c then a else b)"
    unfolding modulate_FSK by (blast dest: broadcast2_elems)
  obtain a b where ab: "p = (a, b)" by (cases p)
  with p have "a \<in> set (map (\<lambda>x. sin (2 * pi * fc * 1.5 * x)) t)"
    and "b \<in> set (map (\<lambda>x. sin (2 * pi * fc * x)) t)"
    by (auto dest: set_zip_leftD set_zip_rightD)
  then have "- 1 \<le> a \<and> a \<le> 1" "- 1 \<le> b \<and> b \<le> 1" by auto
  with x ab show ?thesis by simp
qed

lemma modulate_signal_ok:
  assumes "length msg = length t" "2 \<le> length t"
  shows "\<exists>w. modulate_signal fc msg t m k = Inr w \<and> length w = length t"
proof -
  from assms(2) obtain t0 t1 ts where t: "t = t0 # t1 # ts"
    using two_or_more [of t] by auto
  with assms(1) have "length msg = Suc (Suc (length ts))" by simp
  with t show ?thesis
    by (simp add: modulate_signal_def broadcast2_same length_cumsum map_result_def Let_def)
qed

lemma generate_signal_ok:
  "\<exists>w. fst (generate_signal st t a f off g) = Inr w \<and> length w = length t"
  by (auto simp add: generate_signal_def length_square length_sawtooth
      split: prod.splits dest: binary_draws_length_pair)

lemma demodulate_signal_ok:
  assumes "mod_type = ''FM'' \<or> mod_type = ''PM'' \<longrightarrow> 2 \<le> length s"
  shows "\<exists>d. demodulate_signal s mod_type = Inr d \<and> arr_len d = length s"
proof (cases "mod_type = ''FM'' \<or> mod_type = ''PM''")
  case True
  let ?p = "np_unwrap (map (\<lambda>x. np_angle (complex_of_real x + \<i> * complex_of_real x)) s)"
  from True assms have "2 \<le> length ?p" by (simp add: length_np_unwrap)
  from np_gradient_ok [OF this] obtain w where
    "np_gradient ?p = Inr w" "length w = length s"
    by (auto simp: length_np_unwrap)
  with True show ?thesis
    by (auto simp: demodulate_signal_def map_result_def)
next
  case False
  then show ?thesis by (simp add: demodulate_signal_def)
qed

lemma fm_formula:
  "length ys = length xs \<Longrightarrow>
   map_result (map sin)
     (broadcast2 (\<lambda>p i. p + i) (map (\<lambda>x. c * x) xs)
        (map (\<lambda>i. k * i) (map (\<lambda>s. s * d) ys)))
   = Inr (map2 (\<lambda>x i. sin (c * x + k * (i * d))) xs ys)"
  by (simp add: broadcast2_same map_result_def list_eq_iff_nth_eq)

subsection \<open>The generator\<close>

lemma binary_draws_rest: "snd (binary_draws n g) = (\<lambda>i. g (i + n))"
proof (induction n arbitrary: g)
  case 0
  show ?case by simp
next
  case (Suc n)
  have "snd (binary_draws (Suc n) g) = snd (binary_draws n (\<lambda>i. g (Suc i)))"
    by (simp add: np_random_random_def split: prod.splits)
  also have "\<dots> = (\<lambda>i. g (Suc (i + n)))" by (simp add: Suc)
  finally show ?case by simp
qed

lemma binary_draws_const:
  "fst (binary_draws n (const_rng r)) = replicate n (if r > 0.5 then 1 else 0)"
proof (induction n)
  case 0
  show ?case by simp
next
  case (Suc n)
  have "(\<lambda>i. const_rng r (Suc i)) = const_rng r" by (simp add: const_rng_def)
  then have "fst (binary_draws (Suc n) (const_rng r)) =
      (if const_rng r 0 > 0.5 then 1 else 0) # fst (binary_draws n (const_rng r))"
    by (simp add: np_random_random_def split: prod.splits)
  with Suc show ?case by (simp add: const_rng_def)
qed

section \<open>The claims\<close>

text \<open>
  C1, as the code has it. \<^verbatim>\<open>generate_signal\<close> and \<^verbatim>\<open>modulate_signal\<close> check none of
  their parameters. With a frequency that is not positive or a negative amplitude,
  \<^verbatim>\<open>generate_signal\<close> returns, for each signal type, the waveform of that type's formula
  evaluated at the amplitude and frequency it was given. With a carrier frequency that
  is not positive or a negative modulation index, \<^verbatim>\<open>modulate_signal\<close> returns, for each
  scheme, the waveform of that scheme's formula at the carrier frequency and index it was
  given, when the message has one sample for each instant (and, for FM, there are two
  instants or more).
\<close>

theorem invalid_parameters_follow_formula:
  "(frequency \<le> 0 \<or> amplitude < 0 \<longrightarrow>
      fst (generate_signal ''Sine Wave'' t amplitude frequency offset g)
        = Inr (map (\<lambda>x. amplitude * sin (2 * pi * frequency * x) + offset) t)
      \<and> fst (generate_signal ''Carrier Wave'' t amplitude frequency offset g)
        = Inr (map (\<lambda>x. amplitude * sin (2 * pi * frequency * x) + offset) t)
      \<and> fst (generate_signal ''Square Wave'' t amplitude frequency offset g)
        = Inr (map (\<lambda>x. amplitude * (if np_mod (2 * pi * frequency * x) (2 * pi) < pi
                                      then 1 else - 1) + offset) t)
      \<and> fst (generate_signal ''Clock Pulse'' t amplitude frequency offset g)
        = Inr (map (\<lambda>x. amplitude * (if np_mod (2 * pi * frequency * x) (2 * pi) < pi
                                      then 1 else - 1) + offset) t)
      \<and> fst (generate_signal ''Triangle Wave'' t amplitude frequency offset g)
        = Inr (map (\<lambda>y. amplitude * y + offset)
                 (sawtooth (map (\<lambda>x. 2 * pi * frequency * x) t) (1 / 2)))
      \<and> fst (generate_signal ''Binary Data'' t amplitude frequency offset g)
        = Inr (map (\<lambda>b. amplitude * of_int b + offset) (fst (binary_draws (length t) g))))
   \<and> (carrier_freq \<le> 0 \<or> mod_index < 0 \<longrightarrow> length message_signal = length t \<longrightarrow>
      modulate_signal carrier_freq message_signal t ''AM'' mod_index
        = Inr (map2 (\<lambda>m x. (1 + mod_index * m) * sin (2 * pi * carrier_freq * x))
                 message_signal t)
      \<and> modulate_signal carrier_freq message_signal t ''PM'' mod_index
        = Inr (map2 (\<lambda>x m. sin (2 * pi * carrier_freq * x + mod_index * m)) t message_signal)
      \<and> modulate_signal carrier_freq message_signal t ''ASK'' mod_index
        = Inr (map2 (\<lambda>x m. sin (2 * pi * carrier_freq * x)
                              * ((if 0 < m then 1 else 0) * 0.5 + 0.5)) t message_signal)
      \<and> modulate_signal carrier_freq message_signal t ''FSK'' mod_index
        = Inr (map2 (\<lambda>m x. if 0 < m then sin (2 * pi * carrier_freq * 1.5 * x)
                             else sin (2 * pi * carrier_freq * x)) message_signal t)
      \<and> modulate_signal carrier_freq message_signal t ''PSK'' mod_index
        = Inr (map2 (\<lambda>x m. sin (2 * pi * carrier_freq * x) * sgn m) t message_signal)
      \<and> (2 \<le> length t \<longrightarrow>
          modulate_signal carrier_freq message_signal t ''FM'' mod_index
            = Inr (map2 (\<lambda>x i. sin (2 * pi * carrier_freq * x
                                    + mod_index * (i * (t ! 1 - t ! 0))))
                     t (cumsum message_signal))))"
proof -
  have gen: "fst (generate_signal ''Sine Wave'' t amplitude frequency offset g)
        = Inr (map (\<lambda>x. amplitude * sin (2 * pi * frequency * x) + offset) t)
      \<and> fst (generate_signal ''Carrier Wave'' t amplitude frequency offset g)
        = Inr (map (\<lambda>x. amplitude * sin (2 * pi * frequency * x) + offset) t)
      \<and> fst (generate_signal ''Square Wave'' t amplitude frequency offset g)
        = Inr (map (\<lambda>x. amplitude * (if np_mod (2 * pi * frequency * x) (2 * pi) < pi
                                      then 1 else - 1) + offset) t)
      \<and> fst (generate_signal ''Clock Pulse'' t amplitude frequency offset g)
        = Inr (map (\<lambda>x. amplitude * (if np_mod (2 * pi * frequency * x) (2 * pi) < pi
                                      then 1 else - 1) + offset) t)
      \<and> fst (generate_signal ''Triangle Wave'' t amplitude frequency offset g)
        = Inr (map (\<lambda>y. amplitude * y + offset)
                 (sawtooth (map (\<lambda>x. 2 * pi * frequency * x) t) (1 / 2)))
      \<and> fst (generate_signal ''Binary Data'' t amplitude frequency offset g)
        = Inr (map (\<lambda>b. amplitude * of_int b + offset) (fst (binary_draws (length t) g)))"
    by (simp add: generate_signal_def square_def comp_def split: prod.splits)
  have md: "length message_signal = length t \<longrightarrow>
      modulate_signal carrier_freq message_signal t ''AM'' mod_index
        = Inr (map2 (\<lambda>m x. (1 + mod_index * m) * sin (2 * pi * carrier_freq * x))
                 message_signal t)
      \<and> modulate_signal carrier_freq message_signal t ''PM'' mod_index
        = Inr (map2 (\<lambda>x m. sin (2 * pi * carrier_freq * x + mod_index * m)) t message_signal)
      \<and> modulate_signal carrier_freq message_signal t ''ASK'' mod_index
        = Inr (map2 (\<lambda>x m. sin (2 * pi * carrier_freq * x)
                              * ((if 0 < m then 1 else 0) * 0.5 + 0.5)) t message_signal)
      \<and> modulate_signal carrier_freq message_signal t ''FSK'' mod_index
        = Inr (map2 (\<lambda>m x. if 0 < m then sin (2 * pi * carrier_freq * 1.5 * x)
                             else sin (2 * pi * carrier_freq * x)) message_signal t)
      \<and> modulate_signal carrier_freq message_signal t ''PSK'' mod_index
        = Inr (map2 (\<lambda>x m. sin (2 * pi * carrier_freq * x) * sgn m) t message_signal)"
    by (simp add: modulate_AM modulate_PM modulate_ASK modulate_FSK modulate_PSK
        broadcast2_same map_result_def list_eq_iff_nth_eq)
  have fm: "length message_signal = length t \<longrightarrow> 2 \<le> length t \<longrightarrow>
          modulate_signal carrier_freq message_signal t ''FM'' mod_index
            = Inr (map2 (\<lambda>x i. sin (2 * pi * carrier_freq * x
                                    + mod_index * (i * (t ! 1 - t ! 0))))
                     t (cumsum message_signal))"
  proof (intro impI)
    assume l: "length message_signal = length t" and "2 \<le> length t"
    then obtain t0 t1 ts where t: "t = t0 # t1 # ts" using two_or_more [of t] by auto
    from l have lc: "length (cumsum message_signal) = length t" by (simp add: length_cumsum)
    have "modulate_signal carrier_freq message_signal (t0 # t1 # ts) ''FM'' mod_index
        = Inr (map2 (\<lambda>x i. sin (2 * pi * carrier_freq * x + mod_index * (i * (t1 - t0))))
                 (t0 # t1 # ts) (cumsum message_signal))"
      unfolding modulate_FM using lc [unfolded t] by (rule fm_formula)
    then show "modulate_signal carrier_freq message_signal t ''FM'' mod_index
            = Inr (map2 (\<lambda>x i. sin (2 * pi * carrier_freq * x
                                    + mod_index * (i * (t ! 1 - t ! 0))))
                     t (cumsum message_signal))"
      by (simp add: t)
  qed
  from gen md fm show ?thesis by blast
qed

theorem invalid_parameters_follow_formula_witness:
  "((0 :: real) \<le> 0 \<or> (- 1 :: real) < 0)
   \<and> fst (generate_signal ''Sine Wave'' [0, 1] (- 1) 0 2 (const_rng 0)) = Inr [2, 2]
   \<and> length [1, 1 :: real] = length [0, 1 :: real] \<and> 2 \<le> length [0, 1 :: real]
   \<and> modulate_signal 0 [1, 1] [0, 1] ''PSK'' (- 1) = Inr [0, 0]
   \<and> modulate_signal 0 [1, 1] [0, 1] ''FM'' (- 1) = Inr [sin (- 1), sin (- 2)]"
  using invalid_parameters_follow_formula
    [of 0 "- 1" "[0, 1]" 2 "const_rng 0" 0 "- 1" "[1, 1]"]
  by (simp add: cumsum_def)

text \<open>
  C1 as stated fails: a sine of amplitude -2 and frequency -1 is synthesized, and a
  carrier of frequency -1 is modulated with index -1, without any error.
\<close>

theorem invalid_parameters_counterexample:
  "fst (generate_signal ''Sine Wave'' [0, 1 / 4] (- 2) (- 1) 1 (const_rng 0)) = Inr [1, 3]
   \<and> modulate_signal (- 1) [0, 1] [0, 1 / 4] ''AM'' (- 1) = Inr [0, 0]"
  by (simp add: generate_signal_def modulate_AM broadcast2_same)

text \<open>
  C2, as the code has it. For a message whose samples are all positive, one for each
  instant, PSK modulation returns the carrier \<open>sin (2 * pi * fc * t)\<close> itself, whatever
  the message and the modulation index, and PSK demodulation of it gives 1 at every
  instant where the carrier is positive and 0 at every instant where the carrier is
  negative. Nothing is said of the instants where the carrier is exactly zero.
\<close>

theorem psk_round_trip_follows_carrier_sign:
  assumes "length message = length t" and "\<forall>m\<in>set message. 0 < m"
  shows "modulate_signal fc message t ''PSK'' k = Inr (map (\<lambda>x. sin (2 * pi * fc * x)) t)
         \<and> (\<exists>d. bind_result (modulate_signal fc message t ''PSK'' k)
                   (\<lambda>m. demodulate_signal m ''PSK'') = Inr (FloatArr d)
                \<and> length d = length t
                \<and> (\<forall>i<length t.
                     (0 < sin (2 * pi * fc * (t ! i)) \<longrightarrow> d ! i = 1)
                     \<and> (sin (2 * pi * fc * (t ! i)) < 0 \<longrightarrow> d ! i = 0)))"
proof -
  have sg: "map sgn message = map (\<lambda>m. 1) message"
    using assms(2) by simp
  have m: "modulate_signal fc message t ''PSK'' k = Inr (map (\<lambda>x. sin (2 * pi * fc * x)) t)"
    using assms(1) by (simp add: modulate_PSK broadcast2_same sg list_eq_iff_nth_eq)
  let ?d = "map (\<lambda>x. if 0 < sin (2 * pi * fc * x) then 1 else (0 :: real)) t"
  have d: "bind_result (modulate_signal fc message t ''PSK'' k)
             (\<lambda>m. demodulate_signal m ''PSK'') = Inr (FloatArr ?d)"
    by (simp add: m bind_result_def demodulate_PSK comp_def)
  have "length ?d = length t" by simp
  moreover have "\<forall>i<length t.
       (0 < sin (2 * pi * fc * (t ! i)) \<longrightarrow> ?d ! i = 1)
       \<and> (sin (2 * pi * fc * (t ! i)) < 0 \<longrightarrow> ?d ! i = 0)"
    by simp
  ultimately show ?thesis using m d by blast
qed

theorem psk_round_trip_follows_carrier_sign_witness:
  "length [2, 5 :: real] = length [1 / 4, 3 / 4 :: real] \<and> (0 :: real) < 2 \<and> (0 :: real) < 5
   \<and> modulate_signal 1 [2, 5] [1 / 4, 3 / 4] ''PSK'' 3 = Inr [1, - 1]
   \<and> bind_result (modulate_signal 1 [2, 5] [1 / 4, 3 / 4] ''PSK'' 3)
        (\<lambda>m. demodulate_signal m ''PSK'') = Inr (FloatArr [1, 0])"
  using psk_round_trip_follows_carrier_sign [of "[2, 5]" "[1 / 4, 3 / 4]" 1 3]
  by (simp add: sin_3pi_half bind_result_def demodulate_PSK)

text \<open>
  C2 as stated fails: with carrier frequency 1, the all-positive message [1, 1] and the
  instants [1/4, 3/4], the carrier is -1 at the second instant, away from the threshold,
  and the demodulated sample there is 0.
\<close>

theorem psk_round_trip_counterexample:
  "bind_result (modulate_signal 1 [1, 1] [1 / 4, 3 / 4] ''PSK'' 1)
     (\<lambda>m. demodulate_signal m ''PSK'') = Inr (FloatArr [1, 0])"
  by (simp add: modulate_PSK demodulate_PSK broadcast2_same bind_result_def sin_3pi_half)

text \<open>
  C3. For a message with one sample for each instant, AM modulation with modulation
  index 0 returns the carrier \<open>sin (2 * pi * fc * t)\<close> at every instant.
\<close>

theorem am_index_zero_is_carrier:
  "length msg = length t \<Longrightarrow>
   modulate_signal fc msg t ''AM'' 0 = Inr (map (\<lambda>x. sin (2 * pi * fc * x)) t)"
  by (simp add: modulate_AM broadcast2_same list_eq_iff_nth_eq)

theorem am_index_zero_is_carrier_witness:
  "length [1 / 2, 3 :: real] = length [0, 1 / 4 :: real]
   \<and> modulate_signal 1 [1 / 2, 3] [0, 1 / 4] ''AM'' 0 = Inr [0, 1]"
  using am_index_zero_is_carrier [of "[1 / 2, 3]" "[0, 1 / 4]" 1] by simp

text \<open>
  C4. For a scheme that is none of AM, FM, PM, ASK, FSK and PSK, \<^verbatim>\<open>modulate_signal\<close>
  returns zeros, one for each instant of the time base, and \<^verbatim>\<open>demodulate_signal\<close> returns
  zeros, one for each sample of its input; neither raises.
\<close>

theorem unknown_scheme_all_zero:
  "mod_type \<notin> {''AM'', ''FM'', ''PM'', ''ASK'', ''FSK'', ''PSK''} \<Longrightarrow>
   modulate_signal fc msg t mod_type k = Inr (replicate (length t) 0)
   \<and> demodulate_signal s mod_type = Inr (FloatArr (replicate (length s) 0))"
  by (simp add: modulate_signal_def demodulate_signal_def)

theorem unknown_scheme_all_zero_witness:
  "''QAM'' \<notin> {''AM'', ''FM'', ''PM'', ''ASK'', ''FSK'', ''PSK''}
   \<and> modulate_signal 10 [0, 1, 2] [0, 1 / 2] ''QAM'' 1 = Inr [0, 0]
   \<and> demodulate_signal [1 / 4, 1 / 2, 1] ''QAM'' = Inr (FloatArr [0, 0, 0])"
  using unknown_scheme_all_zero [of "''QAM''" 10 "[0, 1, 2]" "[0, 1 / 2]" 1 "[1 / 4, 1 / 2, 1]"]
  by simp

text \<open>
  C5. For every signal type and every time base, \<^verbatim>\<open>generate_signal\<close> returns a waveform
  with one sample for each instant. For every scheme, \<^verbatim>\<open>demodulate_signal\<close> returns an
  array with one sample for each sample of its input; for FM and PM the input must have
  the two samples that every waveform over a valid time base has.
\<close>

theorem output_lengths:
  assumes "mod_type = ''FM'' \<or> mod_type = ''PM'' \<longrightarrow> 2 \<le> length s"
  shows "(\<exists>w. fst (generate_signal signal_type t amplitude frequency offset g) = Inr w
             \<and> length w = length t)
         \<and> (\<exists>d. demodulate_signal s mod_type = Inr d \<and> arr_len d = length s)"
  using assms generate_signal_ok demodulate_signal_ok by blast

theorem output_lengths_witness:
  "2 \<le> length [1, - 1 :: real]
   \<and> (\<exists>w. fst (generate_signal ''Binary Data'' [0, 1, 2] 1 1 0 (const_rng 0)) = Inr w
          \<and> length w = length [0, 1, 2 :: real])
   \<and> (\<exists>d. demodulate_signal [1, - 1] ''FM'' = Inr d \<and> arr_len d = length [1, - 1 :: real])"
  using output_lengths [of "''FM''" "[1, - 1]" "''Binary Data''" "[0, 1, 2]" 1 1 0 "const_rng 0"]
  by simp

text \<open>
  C6, on the code. For every input, ASK demodulation marks a sample exactly when it is
  greater than 0.1, so the sample 0.2 is marked and the sample 0.1 is not. The array it
  returns holds the booleans themselves, where the claim has the reals 0 and 1; PSK
  demodulation, the next branch, does return reals.
\<close>

theorem ask_demodulation_returns_booleans:
  "demodulate_signal s ''ASK'' = Inr (BoolArr (map (\<lambda>x. 0.1 < x) s))
   \<and> demodulate_signal [0.2, 0.1] ''ASK'' = Inr (BoolArr [True, False])
   \<and> demodulate_signal [0.2, - 0.1] ''PSK'' = Inr (FloatArr [1, 0])"
  by (simp add: demodulate_signal_def)

text \<open>
  C7. When the channel's signal type contains "Carrier Wave" and neither "Message
  Signal" nor "Clock Pulse", the channel's signal is the carrier wave generated with
  the channel's amplitude and offset and the global carrier frequency; the channel's
  own frequency does not enter it.
\<close>

theorem carrier_channel_uses_global_frequency:
  assumes "str_contains ''Carrier Wave'' (ch_signal_type ch)"
    and "\<not> str_contains ''Message Signal'' (ch_signal_type ch)"
    and "\<not> str_contains ''Clock Pulse'' (ch_signal_type ch)"
  shows "channel_signal carrier_freq t message_signal ch g
           = generate_signal ''Carrier Wave'' t (ch_amplitude ch) carrier_freq (ch_offset ch) g
         \<and> channel_signal carrier_freq t message_signal (ch\<lparr>ch_frequency := f\<rparr>) g
           = channel_signal carrier_freq t message_signal ch g"
  using assms by (simp add: channel_signal_def)

theorem carrier_channel_uses_global_frequency_witness:
  "str_contains ''Carrier Wave'' ''Carrier Wave''
   \<and> \<not> str_contains ''Message Signal'' ''Carrier Wave''
   \<and> \<not> str_contains ''Clock Pulse'' ''Carrier Wave''
   \<and> channel_signal 10 [0, 1] [0, 0]
        \<lparr>ch_enabled = True, ch_signal_type = ''Carrier Wave'', ch_amplitude = 2,
         ch_frequency = 7, ch_offset = 1, ch_mod_index = 1\<rparr> (const_rng 0)
      = generate_signal ''Carrier Wave'' [0, 1] 2 10 1 (const_rng 0)
   \<and> channel_signal 10 [0, 1] [0, 0]
        \<lparr>ch_enabled = True, ch_signal_type = ''Carrier Wave'', ch_amplitude = 2,
         ch_frequency = 3, ch_offset = 1, ch_mod_index = 1\<rparr> (const_rng 0)
      = channel_signal 10 [0, 1] [0, 0]
        \<lparr>ch_enabled = True, ch_signal_type = ''Carrier Wave'', ch_amplitude = 2,
         ch_frequency = 7, ch_offset = 1, ch_mod_index = 1\<rparr> (const_rng 0)"
  using carrier_channel_uses_global_frequency
    [of "\<lparr>ch_enabled = True, ch_signal_type = ''Carrier Wave'', ch_amplitude = 2,
         ch_frequency = 7, ch_offset = 1, ch_mod_index = 1\<rparr>" 10 "[0, 1]" "[0, 0]"
        "const_rng 0" 3]
  by simp

text \<open>
  C8. The clock pulse and the square wave generated with the same amplitude, frequency
  and offset over the same time base are the same waveform: amplitude times the square
  function of duty 0.5, plus the offset.
\<close>

theorem clock_pulse_is_square_wave:
  "generate_signal ''Clock Pulse'' t amplitude frequency offset g
     = generate_signal ''Square Wave'' t amplitude frequency offset g
   \<and> fst (generate_signal ''Clock Pulse'' t amplitude frequency offset g)
     = Inr (map (\<lambda>x. amplitude * (if np_mod (2 * pi * frequency * x) (2 * pi) < pi
                                   then 1 else - 1) + offset) t)"
  by (simp add: generate_signal_def square_def comp_def)

text \<open>
  C9. \<^verbatim>\<open>modulate_signal\<close> and \<^verbatim>\<open>demodulate_signal\<close> return equal results on equal
  arguments; they never touch the random generator. For every signal type other than
  "Binary Data", \<^verbatim>\<open>generate_signal\<close> returns the same waveform whatever the state of the
  generator and leaves the generator as it was. For "Binary Data" it takes one draw for
  each instant from the generator, so that the next call sees later draws, and for a
  time base that is not empty and an amplitude other than 0 two states of the generator
  give different waveforms.
\<close>

theorem only_binary_data_is_random:
  "(fc = fc' \<and> msg = msg' \<and> t = t' \<and> mod_type = mod_type' \<and> k = k' \<longrightarrow>
      modulate_signal fc msg t mod_type k = modulate_signal fc' msg' t' mod_type' k')
   \<and> (s = s' \<and> mod_type = mod_type' \<longrightarrow>
      demodulate_signal s mod_type = demodulate_signal s' mod_type')
   \<and> (signal_type \<noteq> ''Binary Data'' \<longrightarrow>
      fst (generate_signal signal_type t amplitude frequency offset g)
        = fst (generate_signal signal_type t amplitude frequency offset g')
      \<and> snd (generate_signal signal_type t amplitude frequency offset g) = g)
   \<and> snd (generate_signal ''Binary Data'' t amplitude frequency offset g)
        = (\<lambda>i. g (i + length t))
   \<and> (t \<noteq> [] \<and> amplitude \<noteq> 0 \<longrightarrow>
      fst (generate_signal ''Binary Data'' t amplitude frequency offset (const_rng (3 / 4)))
        \<noteq> fst (generate_signal ''Binary Data'' t amplitude frequency offset (const_rng (1 / 4))))"
proof -
  have a: "signal_type \<noteq> ''Binary Data'' \<longrightarrow>
      fst (generate_signal signal_type t amplitude frequency offset g)
        = fst (generate_signal signal_type t amplitude frequency offset g')
      \<and> snd (generate_signal signal_type t amplitude frequency offset g) = g"
    by (simp add: generate_signal_def)
  have bin: "\<And>h. generate_signal ''Binary Data'' t amplitude frequency offset h
      = (Inr (map (\<lambda>b. amplitude * of_int b + offset) (fst (binary_draws (length t) h))),
         snd (binary_draws (length t) h))"
    by (simp add: generate_signal_def split: prod.splits)
  have b: "snd (generate_signal ''Binary Data'' t amplitude frequency offset g)
        = (\<lambda>i. g (i + length t))"
    by (simp add: bin binary_draws_rest)
  have c: "t \<noteq> [] \<and> amplitude \<noteq> 0 \<longrightarrow>
      fst (generate_signal ''Binary Data'' t amplitude frequency offset (const_rng (3 / 4)))
        \<noteq> fst (generate_signal ''Binary Data'' t amplitude frequency offset (const_rng (1 / 4)))"
  proof
    assume ne: "t \<noteq> [] \<and> amplitude \<noteq> 0"
    then obtain n where n: "length t = Suc n" by (cases t) simp_all
    from ne show "fst (generate_signal ''Binary Data'' t amplitude frequency offset
          (const_rng (3 / 4)))
        \<noteq> fst (generate_signal ''Binary Data'' t amplitude frequency offset (const_rng (1 / 4)))"
      by (simp add: bin binary_draws_const n del: binary_draws.simps)
  qed
  from a b c show ?thesis by simp
qed

theorem only_binary_data_is_random_witness:
  "''Sine Wave'' \<noteq> ''Binary Data'' \<and> [0, 1 :: real] \<noteq> [] \<and> (2 :: real) \<noteq> 0
   \<and> fst (generate_signal ''Sine Wave'' [0, 1] 2 1 0 (const_rng (3 / 4)))
      = fst (generate_signal ''Sine Wave'' [0, 1] 2 1 0 (const_rng (1 / 4)))
   \<and> snd (generate_signal ''Sine Wave'' [0, 1] 2 1 0 (const_rng (3 / 4))) = const_rng (3 / 4)
   \<and> fst (generate_signal ''Binary Data'' [0, 1] 2 1 0 (const_rng (3 / 4)))
      \<noteq> fst (generate_signal ''Binary Data'' [0, 1] 2 1 0 (const_rng (1 / 4)))
   \<and> modulate_signal 1 [0, 0] [0, 1] ''AM'' 1 = modulate_signal 1 [0, 0] [0, 1] ''AM'' 1
   \<and> demodulate_signal [0, 1] ''AM'' = demodulate_signal [0, 1] ''AM''"
  using only_binary_data_is_random
    [of 1 1 "[0, 0]" "[0, 0]" "[0, 1]" "[0, 1]" "''AM''" "''AM''" 1 1 "[0, 1]" "[0, 1]"
        "''Sine Wave''" 2 1 0 "const_rng (3 / 4)" "const_rng (1 / 4)"]
  by simp

text \<open>
  C10. For FM, PM and FSK every sample that \<^verbatim>\<open>modulate_signal\<close> returns lies between -1
  and 1, for every carrier frequency and modulation index; and it does return a
  waveform, of the length of the time base, when the message has one sample for each of
  the two or more instants.
\<close>

theorem fm_pm_fsk_bounded:
  assumes "mod_type \<in> {''FM'', ''PM'', ''FSK''}"
  shows "(\<forall>w. modulate_signal fc msg t mod_type k = Inr w \<longrightarrow>
            (\<forall>x\<in>set w. - 1 \<le> x \<and> x \<le> 1))
         \<and> (length msg = length t \<and> 2 \<le> length t \<longrightarrow>
            (\<exists>w. modulate_signal fc msg t mod_type k = Inr w \<and> length w = length t))"
proof -
  have b: "\<forall>w. modulate_signal fc msg t mod_type k = Inr w \<longrightarrow>
             (\<forall>x\<in>set w. - 1 \<le> x \<and> x \<le> 1)"
    using assms fm_bound pm_bound fsk_bound by auto
  have r: "length msg = length t \<and> 2 \<le> length t \<longrightarrow>
        (\<exists>w. modulate_signal fc msg t mod_type k = Inr w \<and> length w = length t)"
    using modulate_signal_ok by blast
  from b r show ?thesis by (rule conjI)
qed

theorem fm_pm_fsk_bounded_witness:
  "''FM'' \<in> {''FM'', ''PM'', ''FSK''}
   \<and> length [1, 1 :: real] = length [0, 1 :: real] \<and> 2 \<le> length [0, 1 :: real]
   \<and> modulate_signal 1 [1, 1] [0, 1] ''FM'' 1 = Inr [sin 1, sin (2 * pi + 2)]
   \<and> - 1 \<le> sin (1 :: real) \<and> sin (1 :: real) \<le> 1
   \<and> - 1 \<le> sin (2 * pi + 2 :: real) \<and> sin (2 * pi + 2 :: real) \<le> 1"
  using fm_pm_fsk_bounded [of "''FM''" 1 "[1, 1]" "[0, 1]" 1]
  by (simp add: modulate_FM broadcast2_same map_result_def cumsum_def)

end
